theory Spec2Isabelle
  imports Complex_Main "HOL-Library.Log_Nat"
begin

section \<open>Python floats\<close>

text \<open>
  A Python float is an IEEE 754 binary64 number: a finite value, an infinity or NaN. The
  sign of a zero is not kept: nothing in app.py depends on it.
\<close>

datatype pyfloat = Finite real | PInf | NInf | NaN

text \<open>The largest \<open>k\<close> with \<open>2^k \<le> x\<close>, for \<open>x > 0\<close>, from the bit length of an integer.\<close>

definition floor_log2 :: "real \<Rightarrow> int" where
  "floor_log2 x = (if 1 \<le> x then bitlen \<lfloor>x\<rfloor> - 1 else - bitlen (\<lceil>1 / x\<rceil> - 1))"

text \<open>The nearest integer, the even one of two that are equally near.\<close>

definition round_half_even :: "real \<Rightarrow> int" where
  "round_half_even y =
     (let n = \<lfloor>y\<rfloor>; r = y - of_int n
      in if r < 1 / 2 then n else if 1 / 2 < r then n + 1 else if even n then n else n + 1)"

text \<open>
  Rounding a real result to binary64, to nearest and ties to even: 53 significant bits,
  the least exponent \<open>-1074\<close> (subnormal numbers), and an infinity when the rounded value
  reaches \<open>2^1024\<close>.
\<close>

definition binary64 :: "real \<Rightarrow> pyfloat" where
  "binary64 x =
     (if x = 0 then Finite 0
      else if 2 ^ 1024 \<le> x then PInf
      else if x \<le> - (2 ^ 1024) then NInf
      else let e = max (floor_log2 \<bar>x\<bar> - 52) (- 1074);
               r = of_int (round_half_even (x / 2 powi e)) * 2 powi e
           in if 2 ^ 1024 \<le> r then PInf else if r \<le> - (2 ^ 1024) then NInf else Finite r)"

text \<open>\<^verbatim>\<open>a * b\<close> on floats. It never raises: an overflow gives an infinity.\<close>

fun fmul :: "pyfloat \<Rightarrow> pyfloat \<Rightarrow> pyfloat" where
  "fmul (Finite x) (Finite y) = binary64 (x * y)"
| "fmul NaN b = NaN"
| "fmul a NaN = NaN"
| "fmul (Finite x) PInf = (if x = 0 then NaN else if 0 < x then PInf else NInf)"
| "fmul (Finite x) NInf = (if x = 0 then NaN else if 0 < x then NInf else PInf)"
| "fmul PInf (Finite y) = (if y = 0 then NaN else if 0 < y then PInf else NInf)"
| "fmul NInf (Finite y) = (if y = 0 then NaN else if 0 < y then NInf else PInf)"
| "fmul PInf PInf = PInf"
| "fmul PInf NInf = NInf"
| "fmul NInf PInf = NInf"
| "fmul NInf NInf = PInf"

text \<open>\<^verbatim>\<open>a > b\<close> on numbers; every comparison with NaN is false.\<close>

fun float_gt :: "pyfloat \<Rightarrow> pyfloat \<Rightarrow> bool" where
  "float_gt (Finite x) (Finite y) = (y < x)"
| "float_gt NaN b = False"
| "float_gt a NaN = False"
| "float_gt PInf b = (b \<noteq> PInf)"
| "float_gt NInf b = False"
| "float_gt (Finite x) b = (b = NInf)"

text \<open>
  The value of \<^verbatim>\<open>v ** 2\<close> for a float \<open>v\<close>. The interpreter settles NaN, the infinities, zero
  and \<open>\<plusminus>1\<close> itself and passes every other base, as its absolute value, to \<^verbatim>\<open>pow\<close> of the C
  library. That function is not correctly rounded on every platform, so it is the
  parameter \<open>libm_pow\<close>: \<open>libm_pow x\<close> is what \<^verbatim>\<open>pow(x, 2.0)\<close> returns for a finite \<open>x > 0\<close>.
\<close>

fun fsquare :: "(real \<Rightarrow> pyfloat) \<Rightarrow> pyfloat \<Rightarrow> pyfloat" where
  "fsquare libm_pow NaN = NaN"
| "fsquare libm_pow PInf = PInf"
| "fsquare libm_pow NInf = PInf"
| "fsquare libm_pow (Finite x) =
     (if x = 0 then Finite 0 else if \<bar>x\<bar> = 1 then Finite 1 else libm_pow \<bar>x\<bar>)"

section \<open>Values that flow through app.py\<close>

text \<open>
  The feed is parsed by \<^verbatim>\<open>response.json()\<close>, so every value the program handles is a
  parsed JSON value: \<^verbatim>\<open>None\<close>, a bool, an int (a number written without fraction and
  exponent), a float, a str, a list or a dict with str keys. A str is a list of characters,
  one per code point. A dict is the list of its items in insertion order; a key is looked
  up with \<open>map_of\<close>.
\<close>

datatype json =
    JNull
  | JBool bool
  | JInt int
  | JFloat pyfloat
  | JStr string
  | JArr "json list"
  | JObj "(string \<times> json) list"

text \<open>The float that the parser returns for a number written with a fraction or an
  exponent: the binary64 number nearest to the decimal value.\<close>

definition num :: "real \<Rightarrow> json" where
  "num x = JFloat (binary64 x)"

text \<open>The exceptions of the interpreter that the modelled paths can raise.\<close>

datatype py_error = TypeError | OverflowError | ValueError

text \<open>\<^verbatim>\<open>v[k]\<close> with a str key: only a dict accepts it (KeyError when the key is missing,
  TypeError on every other value). Both exceptions are \<open>None\<close> here, since the only caller
  catches \<^verbatim>\<open>Exception\<close>.\<close>

fun getitem_key :: "json \<Rightarrow> string \<Rightarrow> json option" where
  "getitem_key (JObj items) k = map_of items k"
| "getitem_key _ k = None"

text \<open>\<^verbatim>\<open>v[i]\<close> with a non-negative int index: a list gives its element, a str gives the
  one-character str, both raise IndexError out of range; a dict with str keys raises
  KeyError, every other value TypeError.\<close>

fun getitem_idx :: "json \<Rightarrow> nat \<Rightarrow> json option" where
  "getitem_idx (JArr xs) i = (if i < length xs then Some (xs ! i) else None)"
| "getitem_idx (JStr s) i = (if i < length s then Some (JStr [s ! i]) else None)"
| "getitem_idx _ i = None"

text \<open>\<^verbatim>\<open>for x in v\<close>: a list yields its elements, a str its characters, a dict its keys;
  nothing else is iterable (TypeError).\<close>

fun py_iter :: "json \<Rightarrow> json list option" where
  "py_iter (JArr xs) = Some xs"
| "py_iter (JStr s) = Some (map (\<lambda>c. JStr [c]) s)"
| "py_iter (JObj items) = Some (map (\<lambda>(k, v). JStr k) items)"
| "py_iter _ = None"

text \<open>The value of a number in a comparison: an int and a bool (0 or 1) compare by their
  exact value, also with a float.\<close>

fun as_number :: "json \<Rightarrow> pyfloat option" where
  "as_number (JInt n) = Some (Finite (of_int n))"
| "as_number (JFloat f) = Some f"
| "as_number (JBool b) = Some (Finite (if b then 1 else 0))"
| "as_number _ = None"

section \<open>The event tuples and the shared dataset\<close>

text \<open>An event is the tuple \<^verbatim>\<open>(lat, lon, magnitude)\<close> as the fetch appends it: the three
  values are whatever the feed held at those places.\<close>

type_synonym event = "json \<times> json \<times> json"

text \<open>The return value of \<^verbatim>\<open>estimate_affected_people\<close>: the str \<^verbatim>\<open>"Unknown"\<close> or an int.\<close>

datatype affected = Unknown | Count int

text \<open>The two module globals. \<^verbatim>\<open>population_data\<close> is a dict keyed by the tuple
  \<^verbatim>\<open>(lat, lon)\<close>, kept as its items in insertion order.\<close>

record dataset =
  heatmap_data :: "event list"
  population_data :: "((json \<times> json) \<times> affected) list"

definition initial :: dataset where
  "initial = \<lparr>heatmap_data = [], population_data = []\<rparr>"

section \<open>fetch\_usgs\_earthquake\_data\<close>

text \<open>What \<^verbatim>\<open>requests.get\<close> does: it raises, or it returns a response with a status code
  and a body; \<^verbatim>\<open>response.json()\<close> returns the parsed body or raises (\<open>None\<close>).\<close>

datatype http_outcome =
    RequestFailed
  | Response int "json option"

text \<open>The body of the \<^verbatim>\<open>for feature\<close> loop, lines 39 to 41: three subscript chains. Any
  exception in them leaves the function through \<^verbatim>\<open>except Exception\<close>.\<close>

definition read_feature :: "json \<Rightarrow> event option" where
  "read_feature feature =
     (case getitem_key feature ''geometry'' of None \<Rightarrow> None | Some geometry \<Rightarrow>
     (case getitem_key geometry ''coordinates'' of None \<Rightarrow> None | Some coordinates \<Rightarrow>
     (case getitem_idx coordinates 1 of None \<Rightarrow> None | Some lat \<Rightarrow>
     (case getitem_idx coordinates 0 of None \<Rightarrow> None | Some lon \<Rightarrow>
     (case getitem_key feature ''properties'' of None \<Rightarrow> None | Some properties \<Rightarrow>
     (case getitem_key properties ''mag'' of None \<Rightarrow> None | Some magnitude \<Rightarrow>
        Some (lat, lon, magnitude)))))))"

text \<open>The loop of lines 38 to 42 with its accumulator \<^verbatim>\<open>earthquakes\<close>.\<close>

fun collect :: "json list \<Rightarrow> event list \<Rightarrow> event list option" where
  "collect [] earthquakes = Some earthquakes"
| "collect (feature # rest) earthquakes =
     (case read_feature feature of
        None \<Rightarrow> None
      | Some ev \<Rightarrow> collect rest (earthquakes @ [ev]))"

text \<open>Lines 33 to 48. \<open>None\<close> is the \<^verbatim>\<open>return None\<close> of line 48, reached after a
  non-200 status and after any exception.\<close>

fun fetch_usgs_earthquake_data :: "http_outcome \<Rightarrow> event list option" where
  "fetch_usgs_earthquake_data RequestFailed = None"
| "fetch_usgs_earthquake_data (Response status_code body) =
     (if status_code = 200 then
        (case body of None \<Rightarrow> None | Some data \<Rightarrow>
        (case getitem_key data ''features'' of None \<Rightarrow> None | Some features \<Rightarrow>
        (case py_iter features of None \<Rightarrow> None | Some fs \<Rightarrow> collect fs [])))
      else None)"

section \<open>Comparing values\<close>

text \<open>
  Equality of two items as a dict or a list comparison decides it (identity, else
  \<^verbatim>\<open>==\<close>): numbers (bools among them) by value, strs and \<^verbatim>\<open>None\<close> by content, lists element by
  element, dicts item by item; values of different kinds are unequal. It never raises.
  The parser returns one and the same object for every \<^verbatim>\<open>NaN\<close> of a feed, so two NaN are
  equal here, by identity.
\<close>

fun py_eq :: "json \<Rightarrow> json \<Rightarrow> bool"
  and py_eq_list :: "json list \<Rightarrow> json list \<Rightarrow> bool"
  and py_eq_items :: "(string \<times> json) list \<Rightarrow> (string \<times> json) list \<Rightarrow> bool" where
  "py_eq JNull b = (b = JNull)"
| "py_eq (JBool p) b = (as_number b = Some (Finite (if p then 1 else 0)))"
| "py_eq (JInt n) b = (as_number b = Some (Finite (of_int n)))"
| "py_eq (JFloat f) b = (as_number b = Some f)"
| "py_eq (JStr s) b = (b = JStr s)"
| "py_eq (JArr xs) b = (case b of JArr ys \<Rightarrow> py_eq_list xs ys | _ \<Rightarrow> False)"
| "py_eq (JObj items) b =
     (case b of JObj items' \<Rightarrow> length items = length items' \<and> py_eq_items items items'
      | _ \<Rightarrow> False)"
| "py_eq_list [] ys = (ys = [])"
| "py_eq_list (x # xs) ys =
     (case ys of [] \<Rightarrow> False | y # ys' \<Rightarrow> py_eq x y \<and> py_eq_list xs ys')"
| "py_eq_items [] items' = True"
| "py_eq_items ((k, v) # rest) items' =
     (case map_of items' k of None \<Rightarrow> False | Some v' \<Rightarrow> py_eq v v' \<and> py_eq_items rest items')"

text \<open>\<^verbatim>\<open>s > t\<close> on strs: lexicographic on the code points.\<close>

fun str_gt :: "string \<Rightarrow> string \<Rightarrow> bool" where
  "str_gt [] t = False"
| "str_gt (c # cs) [] = True"
| "str_gt (c # cs) (d # ds) =
     (if c = d then str_gt cs ds else (of_char d :: nat) < of_char c)"

text \<open>\<^verbatim>\<open>a > b\<close>: defined between two numbers, two strs and two lists (at the first pair of
  unequal elements, else by length); every other pair raises TypeError.\<close>

fun py_gt :: "json \<Rightarrow> json \<Rightarrow> py_error + bool"
  and py_gt_list :: "json list \<Rightarrow> json list \<Rightarrow> py_error + bool" where
  "py_gt (JArr xs) b = (case b of JArr ys \<Rightarrow> py_gt_list xs ys | _ \<Rightarrow> Inl TypeError)"
| "py_gt (JStr s) b = (case b of JStr t \<Rightarrow> Inr (str_gt s t) | _ \<Rightarrow> Inl TypeError)"
| "py_gt (JFloat f) b =
     (case as_number b of Some y \<Rightarrow> Inr (float_gt f y) | None \<Rightarrow> Inl TypeError)"
| "py_gt (JInt n) b =
     (case as_number b of Some y \<Rightarrow> Inr (float_gt (Finite (of_int n)) y)
      | None \<Rightarrow> Inl TypeError)"
| "py_gt (JBool p) b =
     (case as_number b of Some y \<Rightarrow> Inr (float_gt (Finite (if p then 1 else 0)) y)
      | None \<Rightarrow> Inl TypeError)"
| "py_gt JNull b = Inl TypeError"
| "py_gt (JObj items) b = Inl TypeError"
| "py_gt_list [] ys = Inr False"
| "py_gt_list (x # xs) ys =
     (case ys of [] \<Rightarrow> Inr True
      | y # ys' \<Rightarrow> if py_eq x y then py_gt_list xs ys' else py_gt x y)"

section \<open>The dict population\_data\<close>

text \<open>A key is the tuple \<^verbatim>\<open>(lat, lon)\<close>. Hashing it raises TypeError when a component is a
  list or a dict.\<close>

type_synonym key = "json \<times> json"

fun hashable :: "json \<Rightarrow> bool" where
  "hashable (JArr xs) = False"
| "hashable (JObj items) = False"
| "hashable _ = True"

definition key_eq :: "key \<Rightarrow> key \<Rightarrow> bool" where
  "key_eq k k' = (py_eq (fst k) (fst k') \<and> py_eq (snd k) (snd k'))"

text \<open>\<^verbatim>\<open>d[k] = v\<close> on the items: an equal key keeps its place and its first key object and
  takes the new value; a new key goes to the end.\<close>

fun dict_store :: "(key \<times> 'v) list \<Rightarrow> key \<Rightarrow> 'v \<Rightarrow> (key \<times> 'v) list" where
  "dict_store [] k v = [(k, v)]"
| "dict_store ((k', v') # rest) k v =
     (if key_eq k' k then (k', v) # rest else (k', v') # dict_store rest k v)"

definition dict_setitem :: "(key \<times> 'v) list \<Rightarrow> key \<Rightarrow> 'v \<Rightarrow> py_error + (key \<times> 'v) list" where
  "dict_setitem d k v =
     (if hashable (fst k) \<and> hashable (snd k) then Inr (dict_store d k v) else Inl TypeError)"


section \<open>estimate\_affected\_people\<close>

text \<open>\<^verbatim>\<open>np.pi\<close> is the binary64 number nearest to pi, exactly this fraction.\<close>

definition np_pi :: real where
  "np_pi = 884279719003555 / 281474976710656"

text \<open>\<^verbatim>\<open>v ** 2\<close> on a float: the interpreter raises OverflowError when \<^verbatim>\<open>pow\<close> returns an
  infinity for a finite base; an infinite or NaN base raises nothing.\<close>

fun float_pow2 :: "(real \<Rightarrow> pyfloat) \<Rightarrow> pyfloat \<Rightarrow> py_error + pyfloat" where
  "float_pow2 libm_pow (Finite x) =
     (case fsquare libm_pow (Finite x) of
        PInf \<Rightarrow> Inl OverflowError
      | NInf \<Rightarrow> Inl OverflowError
      | r \<Rightarrow> Inr r)"
| "float_pow2 libm_pow v = Inr (fsquare libm_pow v)"

text \<open>The conversion of an int operand of a float multiplication: to the nearest float,
  OverflowError when that is out of range.\<close>

definition int_to_float :: "int \<Rightarrow> py_error + pyfloat" where
  "int_to_float n =
     (case binary64 (of_int n) of
        PInf \<Rightarrow> Inl OverflowError
      | NInf \<Rightarrow> Inl OverflowError
      | r \<Rightarrow> Inr r)"

text \<open>\<^verbatim>\<open>int(x)\<close> on a float truncates towards zero; it raises ValueError on NaN and
  OverflowError on an infinity.\<close>

fun py_int :: "pyfloat \<Rightarrow> py_error + int" where
  "py_int (Finite x) = Inr (if 0 \<le> x then \<lfloor>x\<rfloor> else \<lceil>x\<rceil>)"
| "py_int NaN = Inl ValueError"
| "py_int PInf = Inl OverflowError"
| "py_int NInf = Inl OverflowError"

text \<open>
  Lines 74 and 75, \<^verbatim>\<open>np.pi * ((magnitude * 10) ** 2)\<close>. A float magnitude is multiplied and
  squared in floats. An int magnitude (a bool is an int) is multiplied and squared exactly
  and converted to a float for the product with \<^verbatim>\<open>np.pi\<close>. Any other magnitude raises
  TypeError, at \<^verbatim>\<open>magnitude * 10\<close> (\<^verbatim>\<open>None\<close>, dict) or at \<^verbatim>\<open>** 2\<close> (the repeated str or list).
\<close>

fun impact_area :: "(real \<Rightarrow> pyfloat) \<Rightarrow> json \<Rightarrow> py_error + pyfloat" where
  "impact_area libm_pow (JFloat m) =
     (case float_pow2 libm_pow (fmul m (Finite 10)) of
        Inl e \<Rightarrow> Inl e
      | Inr r2 \<Rightarrow> Inr (fmul (Finite np_pi) r2))"
| "impact_area libm_pow (JInt n) =
     (case int_to_float ((n * 10)\<^sup>2) of
        Inl e \<Rightarrow> Inl e
      | Inr r2 \<Rightarrow> Inr (fmul (Finite np_pi) r2))"
| "impact_area libm_pow (JBool b) =
     (case int_to_float (((if b then 1 else 0) * 10)\<^sup>2) of
        Inl e \<Rightarrow> Inl e
      | Inr r2 \<Rightarrow> Inr (fmul (Finite np_pi) r2))"
| "impact_area libm_pow _ = Inl TypeError"

text \<open>Lines 65 to 79. \<^verbatim>\<open>get_population_density\<close> reads the raster file through rasterio
  and catches every exception, so it is a parameter here: a function from the coordinate
  to a float or \<^verbatim>\<open>None\<close>.\<close>

definition estimate_affected_people ::
  "(real \<Rightarrow> pyfloat) \<Rightarrow> (json \<Rightarrow> json \<Rightarrow> pyfloat option) \<Rightarrow> json \<Rightarrow> json \<Rightarrow> json
   \<Rightarrow> py_error + affected" where
  "estimate_affected_people libm_pow get_population_density lat lon magnitude =
     (case get_population_density lat lon of
        None \<Rightarrow> Inr Unknown
      | Some population_density \<Rightarrow>
          (case impact_area libm_pow magnitude of
             Inl e \<Rightarrow> Inl e
           | Inr impact_area_km2 \<Rightarrow>
               (case py_int (fmul population_density impact_area_km2) of
                  Inl e \<Rightarrow> Inl e
                | Inr affected_people \<Rightarrow> Inr (Count affected_people))))"

section \<open>process\_usgs\_data\<close>

text \<open>The loop of lines 89 to 94 on the globals. An exception leaves the loop with the
  globals as they are at that point; it is returned beside them.\<close>

fun process_events ::
  "(real \<Rightarrow> pyfloat) \<Rightarrow> (json \<Rightarrow> json \<Rightarrow> pyfloat option) \<Rightarrow> event list \<Rightarrow> dataset
   \<Rightarrow> dataset \<times> py_error option" where
  "process_events pw gpd [] st = (st, None)"
| "process_events pw gpd ((lat, lon, magnitude) # rest) st =
     (let st1 = st\<lparr>heatmap_data := heatmap_data st @ [(lat, lon, magnitude)]\<rparr> in
      case estimate_affected_people pw gpd lat lon magnitude of
        Inl e \<Rightarrow> (st1, Some e)
      | Inr affected_people \<Rightarrow>
          (case dict_setitem (population_data st1) (lat, lon) affected_people of
             Inl e \<Rightarrow> (st1, Some e)
           | Inr d \<Rightarrow> process_events pw gpd rest (st1\<lparr>population_data := d\<rparr>)))"

text \<open>\<^verbatim>\<open>if usgs_data:\<close> holds for a list that is not empty; \<^verbatim>\<open>None\<close> and \<^verbatim>\<open>[]\<close> are
  falsy.\<close>

fun truthy :: "event list option \<Rightarrow> bool" where
  "truthy None = False"
| "truthy (Some []) = False"
| "truthy (Some (e # es)) = True"

text \<open>Lines 81 to 96.\<close>

fun process_usgs_data ::
  "(real \<Rightarrow> pyfloat) \<Rightarrow> (json \<Rightarrow> json \<Rightarrow> pyfloat option) \<Rightarrow> event list option \<Rightarrow> dataset
   \<Rightarrow> dataset \<times> py_error option" where
  "process_usgs_data pw gpd (Some (e # es)) st =
     process_events pw gpd (e # es) (st\<lparr>heatmap_data := [], population_data := []\<rparr>)"
| "process_usgs_data pw gpd usgs_data st = (st, None)"

section \<open>The alert of create\_heatmap\<close>

text \<open>\<^verbatim>\<open>max(heatmap_data, key=lambda x: x[2])\<close>: the first item whose magnitude no later
  item exceeds; a comparison that raises ends it.\<close>

fun max_by_magnitude :: "event \<Rightarrow> event list \<Rightarrow> py_error + event" where
  "max_by_magnitude best [] = Inr best"
| "max_by_magnitude best (x # xs) =
     (case py_gt (snd (snd x)) (snd (snd best)) of
        Inl e \<Rightarrow> Inl e
      | Inr gt \<Rightarrow> max_by_magnitude (if gt then x else best) xs)"

text \<open>Lines 116 to 118: the event of the alert, \<open>None\<close> when \<^verbatim>\<open>heatmap_data\<close> is empty and
  no alert is added.\<close>

fun most_extreme :: "event list \<Rightarrow> py_error + event option" where
  "most_extreme [] = Inr None"
| "most_extreme (x # xs) =
     (case max_by_magnitude x xs of Inl e \<Rightarrow> Inl e | Inr m \<Rightarrow> Inr (Some m))"

section \<open>One cycle of update\_heatmap\<close>

text \<open>Lines 139 to 145, the body of the \<^verbatim>\<open>while True\<close> loop before the sleep, for the
  outcome of this cycle's request. An exception from \<^verbatim>\<open>process_usgs_data\<close> is not caught:
  it ends the thread, and the globals stay as they are.\<close>

definition update_heatmap_cycle ::
  "(real \<Rightarrow> pyfloat) \<Rightarrow> (json \<Rightarrow> json \<Rightarrow> pyfloat option) \<Rightarrow> http_outcome \<Rightarrow> dataset
   \<Rightarrow> dataset \<times> py_error option" where
  "update_heatmap_cycle pw gpd outcome st =
     (let usgs_data = fetch_usgs_earthquake_data outcome in
      if truthy usgs_data then process_usgs_data pw gpd usgs_data st else (st, None))"

section \<open>Sample libraries, rasters, feeds and datasets\<close>

text \<open>A C library whose \<^verbatim>\<open>pow\<close> rounds the square correctly. On a base whose square is a
  binary64 number, as 50 and 60, every library returns this value.\<close>

definition pow_rounded :: "real \<Rightarrow> pyfloat" where
  "pow_rounded x = binary64 (x * x)"

text \<open>A raster with the same density in every pixel, and a raster file that cannot be read
  (every lookup returns \<^verbatim>\<open>None\<close>).\<close>

definition flat_raster :: "real \<Rightarrow> json \<Rightarrow> json \<Rightarrow> pyfloat option" where
  "flat_raster d lat lon = Some (Finite d)"

definition no_raster :: "json \<Rightarrow> json \<Rightarrow> pyfloat option" where
  "no_raster lat lon = None"

text \<open>An event and a key whose components are floats, written as decimal numbers.\<close>

definition ev :: "real \<times> real \<times> real \<Rightarrow> event" where
  "ev e = (case e of (lat, lon, magnitude) \<Rightarrow> (num lat, num lon, num magnitude))"

definition nkey :: "real \<times> real \<Rightarrow> key" where
  "nkey c = (case c of (lat, lon) \<Rightarrow> (num lat, num lon))"

text \<open>The dataset left by a cycle that processed one event, and a feed with a success
  status and no event in it.\<close>

definition sample_dataset :: dataset where
  "sample_dataset =
     \<lparr>heatmap_data = [ev (28.6, 77.2, 5)], population_data = [(nkey (28.6, 77.2), Count 785398)]\<rparr>"

definition empty_feed :: http_outcome where
  "empty_feed =
     Response 200 (Some (JObj [(''type'', JStr ''FeatureCollection''), (''features'', JArr [])]))"

text \<open>The example of the specification: two events, and a raster with density 100 at the
  first and 200 at the second.\<close>

definition spec_events :: "event list" where
  "spec_events = [ev (28.6, 77.2, 5), ev (19, 72.8, 6)]"

definition spec_raster :: "json \<Rightarrow> json \<Rightarrow> pyfloat option" where
  "spec_raster lat lon =
     (if lat = num 28.6 \<and> lon = num 77.2 then Some (Finite 100)
      else if lat = num 19 \<and> lon = num 72.8 then Some (Finite 200)
      else None)"

text \<open>A feature and a feed body in the layout of the GeoJSON feed, and three records: a
  complete one, one without the \<^verbatim>\<open>mag\<close> member, and one whose \<^verbatim>\<open>mag\<close> is \<^verbatim>\<open>null\<close>.\<close>

definition feature :: "json list \<Rightarrow> (string \<times> json) list \<Rightarrow> json" where
  "feature coordinates properties =
     JObj [(''type'', JStr ''Feature''),
           (''properties'', JObj properties),
           (''geometry'', JObj [(''type'', JStr ''Point''), (''coordinates'', JArr coordinates)])]"





text \<open>Two events at the same coordinates, and the same place reported again: with
  magnitude 6, and with a \<^verbatim>\<open>null\<close> magnitude.\<close>

definition twin_events :: "event list" where
  "twin_events = [ev (28.6, 77.2, 5), ev (28.6, 77.2, 6)]"


section \<open>Notions used in the statements\<close>



text \<open>\<^verbatim>\<open>d.keys()\<close>, and the key of an event.\<close>

definition dict_keys :: "(key \<times> 'v) list \<Rightarrow> key list" where
  "dict_keys d = map fst d"

definition coords_of :: "event \<Rightarrow> key" where
  "coords_of e = (fst e, fst (snd e))"

definition hashable_key :: "key \<Rightarrow> bool" where
  "hashable_key k = (hashable (fst k) \<and> hashable (snd k))"

text \<open>The value that decides the equality of two hashable values: a bool and an int stand
  for the float of the same value. Two keys are equal as dict keys exactly when their
  canonical forms are the same.\<close>

fun canonical :: "json \<Rightarrow> json" where
  "canonical (JBool b) = JFloat (Finite (if b then 1 else 0))"
| "canonical (JInt n) = JFloat (Finite (of_int n))"
| "canonical v = v"

definition canonical_key :: "key \<Rightarrow> key" where
  "canonical_key k = (canonical (fst k), canonical (snd k))"

text \<open>The formula of the specification, density times pi times the squared radius, with
  each product rounded to a float; \<open>r2\<close> is the squared radius.\<close>

definition float_estimate :: "pyfloat \<Rightarrow> pyfloat \<Rightarrow> pyfloat" where
  "float_estimate density r2 = fmul density (fmul (Finite np_pi) r2)"

section \<open>Properties of the float arithmetic\<close>

lemmas float_eval = floor_log2_def round_half_even_def binary64_def compute_bitlen Let_def
  np_pi_def num_def pow_rounded_def

lemma np_pi_pos: "0 < np_pi"
  by (simp add: np_pi_def)

lemma round_half_even_nonneg: "0 \<le> y \<Longrightarrow> 0 \<le> round_half_even y"
  by (simp add: round_half_even_def Let_def)

lemma round_half_even_nonpos: "y \<le> 0 \<Longrightarrow> round_half_even y \<le> 0"
proof -
  assume y: "y \<le> 0"
  show ?thesis
  proof (cases "y = 0")
    case True
    then show ?thesis by (simp add: round_half_even_def)
  next
    case False
    with y have "y < 0" by simp
    then have "\<lfloor>y\<rfloor> \<le> - 1" by linarith
    then show ?thesis by (simp add: round_half_even_def Let_def)
  qed
qed

lemma binary64_not_NaN: "binary64 x \<noteq> NaN"
  by (simp add: binary64_def Let_def)

lemma binary64_zero: "binary64 0 = Finite 0"
  by (simp add: binary64_def)

lemma binary64_nonneg:
  assumes "0 \<le> x"
  shows "binary64 x \<noteq> NInf" and "binary64 x = Finite r \<Longrightarrow> 0 \<le> r"
proof -
  let ?e = "max (floor_log2 \<bar>x\<bar> - 52) (- 1074)"
  have p: "(0::real) < 2 powi ?e" by simp
  have "0 \<le> x / 2 powi ?e" using assms p by simp
  then have n: "0 \<le> round_half_even (x / 2 powi ?e)" by (rule round_half_even_nonneg)
  have q: "0 \<le> of_int (round_half_even (x / 2 powi ?e)) * (2::real) powi ?e"
    using n p by simp
  show "binary64 x \<noteq> NInf"
    using assms q by (auto simp: binary64_def Let_def)
  show "binary64 x = Finite r \<Longrightarrow> 0 \<le> r"
    using assms q by (auto simp: binary64_def Let_def split: if_splits)
qed

lemma binary64_nonpos:
  assumes "x \<le> 0"
  shows "binary64 x \<noteq> PInf" and "binary64 x = Finite r \<Longrightarrow> r \<le> 0"
proof -
  let ?e = "max (floor_log2 \<bar>x\<bar> - 52) (- 1074)"
  have p: "(0::real) < 2 powi ?e" by simp
  have "x / 2 powi ?e \<le> 0" using assms p by (simp add: divide_le_0_iff)
  then have n: "round_half_even (x / 2 powi ?e) \<le> 0" by (rule round_half_even_nonpos)
  have q: "of_int (round_half_even (x / 2 powi ?e)) * (2::real) powi ?e \<le> 0"
    using n p by (simp add: mult_le_0_iff)
  show "binary64 x \<noteq> PInf"
    using assms q by (auto simp: binary64_def Let_def)
  show "binary64 x = Finite r \<Longrightarrow> r \<le> 0"
    using assms q by (auto simp: binary64_def Let_def split: if_splits)
qed

lemma fmul_Finite:
  "fmul a b = Finite v \<Longrightarrow> \<exists>x y. a = Finite x \<and> b = Finite y \<and> binary64 (x * y) = Finite v"
  by (cases a; cases b) (auto split: if_splits)

lemma fsquare_nonneg:
  assumes "\<forall>x q. pw x = Finite q \<longrightarrow> 0 \<le> q" and "fsquare pw v = Finite q"
  shows "0 \<le> q"
  using assms by (cases v) (auto split: if_splits)

lemma float_pow2_cases:
  "(float_pow2 pw v = Inl OverflowError \<and> (fsquare pw v = PInf \<or> fsquare pw v = NInf))
   \<or> float_pow2 pw v = Inr (fsquare pw v)"
  by (cases v) (auto split: pyfloat.splits)

lemma int_to_float_cases:
  "(int_to_float n = Inl OverflowError \<and> (binary64 (of_int n) = PInf \<or> binary64 (of_int n) = NInf))
   \<or> int_to_float n = Inr (binary64 (of_int n))"
  by (auto simp: int_to_float_def split: pyfloat.splits)

lemma py_int_cases:
  "(\<exists>v. x = Finite v \<and> py_int x = Inr (if 0 \<le> v then \<lfloor>v\<rfloor> else \<lceil>v\<rceil>))
   \<or> (x = NaN \<and> py_int x = Inl ValueError)
   \<or> ((x = PInf \<or> x = NInf) \<and> py_int x = Inl OverflowError)"
  by (cases x) auto

text \<open>The product of a density with an area that is not negative.\<close>

lemma float_estimate_sign:
  assumes r2: "\<forall>q. r2 = Finite q \<longrightarrow> 0 \<le> q"
    and v: "float_estimate (Finite d) r2 = Finite v"
  shows "(0 \<le> d \<longrightarrow> 0 \<le> v) \<and> (d \<le> 0 \<longrightarrow> v \<le> 0)"
proof -
  from v obtain a where a: "fmul (Finite np_pi) r2 = Finite a" and va: "binary64 (d * a) = Finite v"
    by (auto simp: float_estimate_def dest!: fmul_Finite)
  from a obtain q where q: "r2 = Finite q" and aq: "binary64 (np_pi * q) = Finite a"
    by (auto dest!: fmul_Finite)
  from r2 q have "0 \<le> q" by simp
  then have "0 \<le> np_pi * q" using np_pi_pos by simp
  then have a0: "0 \<le> a" using aq by (rule binary64_nonneg(2))
  have p: "0 \<le> v" if "0 \<le> d"
  proof -
    have "0 \<le> d * a" using that a0 by simp
    then show ?thesis using va by (rule binary64_nonneg(2))
  qed
  have n: "v \<le> 0" if "d \<le> 0"
  proof -
    have "d * a \<le> 0" using that a0 by (simp add: mult_le_0_iff)
    then show ?thesis using va by (rule binary64_nonpos(2))
  qed
  show ?thesis using p n by blast
qed

lemma float_estimate_infinite:
  "r2 = PInf \<or> r2 = NInf \<Longrightarrow> float_estimate (Finite d) r2 \<noteq> Finite v"
  using np_pi_pos by (auto simp: float_estimate_def split: if_splits)

lemma estimate_unknown_iff:
  "estimate_affected_people pw gpd lat lon magnitude = Inr Unknown \<longleftrightarrow> gpd lat lon = None"
  by (auto simp: estimate_affected_people_def split: option.splits sum.splits)

lemma estimate_known:
  "gpd lat lon = Some density \<Longrightarrow>
   estimate_affected_people pw gpd lat lon magnitude =
     (case impact_area pw magnitude of
        Inl e \<Rightarrow> Inl e
      | Inr area \<Rightarrow>
          (case py_int (fmul density area) of Inl e \<Rightarrow> Inl e | Inr n \<Rightarrow> Inr (Count n)))"
  by (simp add: estimate_affected_people_def)

text \<open>What the code returns when the squared radius \<open>r2\<close> has been computed.\<close>

lemma estimate_of_square:
  assumes d: "0 \<le> d" and r2: "\<forall>q. r2 = Finite q \<longrightarrow> 0 \<le> q"
  shows "(case float_estimate (Finite d) r2 of
            Finite v \<Rightarrow> 0 \<le> v \<and> py_int (float_estimate (Finite d) r2) = Inr \<lfloor>v\<rfloor>
          | _ \<Rightarrow> py_int (float_estimate (Finite d) r2) = Inl OverflowError
                \<or> py_int (float_estimate (Finite d) r2) = Inl ValueError)"
proof (cases "float_estimate (Finite d) r2")
  case (Finite v)
  then have "0 \<le> v" using float_estimate_sign [OF r2 Finite] d by simp
  then show ?thesis using Finite by simp
qed simp_all

lemma bitlen_eqI:
  assumes "2 ^ k \<le> n" and "n < 2 ^ Suc k"
  shows "bitlen n = int k + 1"
proof -
  have "bitlen n \<le> int k + 1"
    using assms(2) by (simp add: bitlen_le_iff_power nat_add_distrib)
  moreover have "int k + 1 \<le> bitlen n"
    using assms(1) by (simp add: bitlen_ge_iff_power nat_add_distrib)
  ultimately show ?thesis by simp
qed

lemma binary64_large:
  assumes lo: "2 ^ k \<le> x" and hi: "x < 2 ^ Suc k" and k: "k < 1024"
  shows "binary64 x =
     (let r = of_int (round_half_even (x / 2 powi (int k - 52))) * 2 powi (int k - 52)
      in if 2 ^ 1024 \<le> r then PInf else Finite r)"
proof -
  have "(1::real) \<le> 2 ^ k" by simp
  then have one: "1 \<le> x" using lo by linarith
  have f1: "2 ^ k \<le> \<lfloor>x\<rfloor>"
  proof -
    have "real_of_int (2 ^ k) \<le> x" using lo by simp
    then show ?thesis by (simp only: le_floor_iff)
  qed
  have f2: "\<lfloor>x\<rfloor> < 2 ^ Suc k"
  proof -
    have "x < real_of_int (2 ^ Suc k)" using hi by simp
    then show ?thesis by (simp only: floor_less_iff)
  qed
  have ax: "\<bar>x\<bar> = x" using one by simp
  have fl: "floor_log2 x = int k"
    using one bitlen_eqI [OF f1 f2] by (simp add: floor_log2_def)
  have "(2::real) ^ Suc k \<le> 2 ^ 1024"
    using k by (intro power_increasing) simp_all
  then have lt: "x < 2 ^ 1024" using hi by linarith
  have e: "max (int k - 52) (- 1074) = int k - 52" by simp
  have p: "(0::real) < 2 powi (int k - 52)" by simp
  have "0 \<le> x / 2 powi (int k - 52)" using one p by simp
  then have "0 \<le> round_half_even (x / 2 powi (int k - 52))" by (rule round_half_even_nonneg)
  then have r0: "0 \<le> of_int (round_half_even (x / 2 powi (int k - 52))) * (2::real) powi (int k - 52)"
    using p by simp
  have nz: "x \<noteq> 0" "\<not> 2 ^ 1024 \<le> x" "\<not> x \<le> - (2 ^ 1024)"
    using one lt by simp_all
  have nr: "\<not> of_int (round_half_even (x / 2 powi (int k - 52))) * (2::real) powi (int k - 52)
      \<le> - (2 ^ 1024)"
    using r0 by simp
  show ?thesis
    unfolding binary64_def ax fl e Let_def using nz nr by (simp only: if_False)
qed

lemma binary64_1e200:
  "binary64 (10 ^ 200) = Finite 99999999999999996973312221251036165947450327545502362648241750950346848435554075534196338404706251868027512415973882408182135734368278484639385041047239877871023591066789981811181813306167128854888448"
  using binary64_large [of 664 "10 ^ 200"] by (simp add: round_half_even_def Let_def)

lemma binary64_1e201:
  "binary64 (99999999999999996973312221251036165947450327545502362648241750950346848435554075534196338404706251868027512415973882408182135734368278484639385041047239877871023591066789981811181813306167128854888448 * 10)
   = Finite 999999999999999901747459131964173027207212836739039328294498440443382314826691065690307721857975448067474834210390258463987183104130654882031695190925872134291678628544718769301415466131339252487684096"
  using binary64_large [of 667 "99999999999999996973312221251036165947450327545502362648241750950346848435554075534196338404706251868027512415973882408182135734368278484639385041047239877871023591066789981811181813306167128854888448 * 10"]
  by (simp add: round_half_even_def Let_def)

lemma estimate_1e200:
  "estimate_affected_people pow_rounded (flat_raster 1) lat lon (num (10 ^ 200)) = Inl OverflowError"
  using binary64_1e200 binary64_1e201
  by (simp add: estimate_affected_people_def flat_raster_def num_def pow_rounded_def binary64_def)

section \<open>Properties of estimate\_affected\_people\<close>

lemma impact_area_float:
  "impact_area pw (JFloat m) =
     (case float_pow2 pw (fmul m (Finite 10)) of
        Inl e \<Rightarrow> Inl e | Inr r2 \<Rightarrow> Inr (fmul (Finite np_pi) r2))"
  by simp

lemma estimate_float_magnitude:
  assumes d: "0 \<le> d" and g: "gpd lat lon = Some (Finite d)"
    and pw: "\<forall>x q. pw x = Finite q \<longrightarrow> 0 \<le> q"
  shows "(case float_estimate (Finite d) (fsquare pw (fmul m (Finite 10))) of
            Finite v \<Rightarrow> 0 \<le> v
              \<and> estimate_affected_people pw gpd lat lon (JFloat m) = Inr (Count \<lfloor>v\<rfloor>)
          | _ \<Rightarrow> estimate_affected_people pw gpd lat lon (JFloat m) = Inl OverflowError
                \<or> estimate_affected_people pw gpd lat lon (JFloat m) = Inl ValueError)"
proof -
  let ?r2 = "fsquare pw (fmul m (Finite 10))"
  have r2: "\<forall>q. ?r2 = Finite q \<longrightarrow> 0 \<le> q"
    using fsquare_nonneg [OF pw] by blast
  from float_pow2_cases [of pw "fmul m (Finite 10)"] show ?thesis
  proof
    assume o: "float_pow2 pw (fmul m (Finite 10)) = Inl OverflowError \<and> (?r2 = PInf \<or> ?r2 = NInf)"
    then have e: "estimate_affected_people pw gpd lat lon (JFloat m) = Inl OverflowError"
      by (simp add: estimate_known [where gpd = gpd and lat = lat and lon = lon, OF g])
    from o have "\<And>v. float_estimate (Finite d) ?r2 \<noteq> Finite v"
      using float_estimate_infinite by blast
    then show ?thesis using e by (cases "float_estimate (Finite d) ?r2") auto
  next
    assume s: "float_pow2 pw (fmul m (Finite 10)) = Inr ?r2"
    have e: "estimate_affected_people pw gpd lat lon (JFloat m) =
        (case py_int (float_estimate (Finite d) ?r2) of Inl e \<Rightarrow> Inl e | Inr n \<Rightarrow> Inr (Count n))"
      by (simp add: estimate_known [where gpd = gpd and lat = lat and lon = lon, OF g] s float_estimate_def)
    from estimate_of_square [OF d r2] show ?thesis
      by (cases "float_estimate (Finite d) ?r2") (auto simp: e)
  qed
qed

lemma estimate_int_magnitude:
  assumes d: "0 \<le> d" and g: "gpd lat lon = Some (Finite d)"
  shows "(case float_estimate (Finite d) (binary64 (of_int ((n * 10)\<^sup>2))) of
            Finite v \<Rightarrow> 0 \<le> v
              \<and> estimate_affected_people pw gpd lat lon (JInt n) = Inr (Count \<lfloor>v\<rfloor>)
          | _ \<Rightarrow> estimate_affected_people pw gpd lat lon (JInt n) = Inl OverflowError
                \<or> estimate_affected_people pw gpd lat lon (JInt n) = Inl ValueError)"
proof -
  let ?r2 = "binary64 (of_int ((n * 10)\<^sup>2))"
  have sq: "(0::real) \<le> of_int ((n * 10)\<^sup>2)" by simp
  have r2: "\<forall>q. ?r2 = Finite q \<longrightarrow> 0 \<le> q"
    using binary64_nonneg(2) [OF sq] by blast
  from int_to_float_cases [of "(n * 10)\<^sup>2"] show ?thesis
  proof
    assume o: "int_to_float ((n * 10)\<^sup>2) = Inl OverflowError \<and> (?r2 = PInf \<or> ?r2 = NInf)"
    then have ia: "impact_area pw (JInt n) = Inl OverflowError"
      by (simp only: impact_area.simps sum.case)
    have e: "estimate_affected_people pw gpd lat lon (JInt n) = Inl OverflowError"
      by (simp only: estimate_known [where gpd = gpd and lat = lat and lon = lon, OF g] ia
          sum.case)
    from o have "\<And>v. float_estimate (Finite d) ?r2 \<noteq> Finite v"
      using float_estimate_infinite by blast
    then show ?thesis using e by (cases "float_estimate (Finite d) ?r2") auto
  next
    assume s: "int_to_float ((n * 10)\<^sup>2) = Inr ?r2"
    have ia: "impact_area pw (JInt n) = Inr (fmul (Finite np_pi) ?r2)"
      by (simp only: impact_area.simps s sum.case)
    have e: "estimate_affected_people pw gpd lat lon (JInt n) =
        (case py_int (float_estimate (Finite d) ?r2) of Inl e \<Rightarrow> Inl e | Inr n \<Rightarrow> Inr (Count n))"
      by (simp only: estimate_known [where gpd = gpd and lat = lat and lon = lon, OF g] ia
          sum.case float_estimate_def)
    from estimate_of_square [OF d r2] show ?thesis
      by (cases "float_estimate (Finite d) ?r2") (auto simp: e)
  qed
qed

lemma estimate_zero_magnitude:
  assumes g: "gpd lat lon = Some (Finite d)"
  shows "estimate_affected_people pw gpd lat lon (JFloat (Finite 0)) = Inr (Count 0)"
    and "estimate_affected_people pw gpd lat lon (JInt 0) = Inr (Count 0)"
  by (simp_all add: estimate_known [where gpd = gpd and lat = lat and lon = lon, OF g] binary64_zero int_to_float_def)

text \<open>
  C1, as the code has it. The result is \<^verbatim>\<open>"Unknown"\<close> exactly when the density lookup returned
  \<^verbatim>\<open>None\<close>. With a known finite density \<open>d \<ge> 0\<close> and a C library whose \<^verbatim>\<open>pow\<close> returns no
  negative number, the value of density times pi times the squared radius is taken in
  floats, each product rounded to binary64, the square of a float magnitude by \<^verbatim>\<open>pow\<close> and the
  square of an int magnitude exactly. When that value is finite it is not negative and the
  code returns its floor; otherwise the code raises OverflowError or ValueError. Magnitude
  0 gives 0.
\<close>

theorem estimate_floor:
  "(estimate_affected_people pw gpd lat lon magnitude = Inr Unknown \<longleftrightarrow> gpd lat lon = None)
   \<and> (gpd lat lon = Some (Finite d) \<and> 0 \<le> d \<and> (\<forall>x q. pw x = Finite q \<longrightarrow> 0 \<le> q) \<longrightarrow>
        (case float_estimate (Finite d) (fsquare pw (fmul (Finite m) (Finite 10))) of
           Finite v \<Rightarrow> 0 \<le> v
             \<and> estimate_affected_people pw gpd lat lon (JFloat (Finite m)) = Inr (Count \<lfloor>v\<rfloor>)
         | _ \<Rightarrow> estimate_affected_people pw gpd lat lon (JFloat (Finite m)) = Inl OverflowError
               \<or> estimate_affected_people pw gpd lat lon (JFloat (Finite m)) = Inl ValueError)
      \<and> (case float_estimate (Finite d) (binary64 (of_int ((n * 10)\<^sup>2))) of
           Finite v \<Rightarrow> 0 \<le> v
             \<and> estimate_affected_people pw gpd lat lon (JInt n) = Inr (Count \<lfloor>v\<rfloor>)
         | _ \<Rightarrow> estimate_affected_people pw gpd lat lon (JInt n) = Inl OverflowError
               \<or> estimate_affected_people pw gpd lat lon (JInt n) = Inl ValueError)
      \<and> estimate_affected_people pw gpd lat lon (JFloat (Finite 0)) = Inr (Count 0)
      \<and> estimate_affected_people pw gpd lat lon (JInt 0) = Inr (Count 0))"
  using estimate_unknown_iff [where pw = pw and gpd = gpd and lat = lat and lon = lon
      and magnitude = magnitude]
    estimate_float_magnitude [where d = d and gpd = gpd and lat = lat and lon = lon and pw = pw
      and m = "Finite m"]
    estimate_int_magnitude [where d = d and gpd = gpd and lat = lat and lon = lon and pw = pw
      and n = n]
    estimate_zero_magnitude [where d = d and gpd = gpd and lat = lat and lon = lon and pw = pw]
  by blast

text \<open>The sample values and estimates.\<close>

lemma hashable_num: "hashable (num x)"
  by (simp add: num_def)

lemma num_eq_iff: "num x = num y \<longleftrightarrow> binary64 x = binary64 y"
  by (simp add: num_def)

lemma py_eq_num: "py_eq (num x) (num y) \<longleftrightarrow> binary64 x = binary64 y"
  by (auto simp: num_def)

lemma py_gt_num: "py_gt (num x) (num y) = Inr (float_gt (binary64 x) (binary64 y))"
  by (simp add: num_def)

lemma binary64_28_6: "binary64 28.6 = Finite (4025092166962381 / 140737488355328)"
  by (simp add: float_eval)

lemma binary64_77_2: "binary64 77.2 = Finite (5432467050515661 / 70368744177664)"
  by (simp add: float_eval)

lemma binary64_72_8: "binary64 72.8 = Finite (5122844576133939 / 70368744177664)"
  by (simp add: float_eval)

lemma binary64_small:
  "binary64 5 = Finite 5" "binary64 6 = Finite 6" "binary64 10 = Finite 10"
  "binary64 19 = Finite 19"
  by (simp_all add: float_eval)

lemmas sample_values = binary64_28_6 binary64_77_2 binary64_72_8 binary64_small

lemma pow_rounded_nonneg: "\<forall>x q. pow_rounded x = Finite q \<longrightarrow> 0 \<le> q"
proof (intro allI impI)
  fix x q :: real
  assume "pow_rounded x = Finite q"
  then have "binary64 (x * x) = Finite q" by (simp add: pow_rounded_def)
  moreover have "0 \<le> x * x" by simp
  ultimately show "0 \<le> q" using binary64_nonneg(2) by blast
qed

lemma estimate_spec_first:
  "estimate_affected_people pow_rounded spec_raster (num 28.6) (num 77.2) (num 5)
     = Inr (Count 785398)"
  by (simp add: estimate_affected_people_def spec_raster_def float_eval)

lemma estimate_spec_second:
  "estimate_affected_people pow_rounded spec_raster (num 19) (num 72.8) (num 6)
     = Inr (Count 2261946)"
  by (simp add: estimate_affected_people_def spec_raster_def float_eval)

lemma estimate_flat_5:
  "estimate_affected_people pow_rounded (flat_raster 100) lat lon (num 5) = Inr (Count 785398)"
  by (simp add: estimate_affected_people_def flat_raster_def float_eval)

lemma estimate_flat_6:
  "estimate_affected_people pow_rounded (flat_raster 100) lat lon (num 6) = Inr (Count 1130973)"
  by (simp add: estimate_affected_people_def flat_raster_def float_eval)


lemma float_estimate_100_5:
  "float_estimate (Finite 100) (fsquare pow_rounded (fmul (Finite 5) (Finite 10)))
     = Finite (6746518852261009 / 8589934592)"
  by (simp add: float_estimate_def float_eval)

lemma float_estimate_100_int_5:
  "float_estimate (Finite 100) (binary64 (of_int ((5 * 10)\<^sup>2)))
     = Finite (6746518852261009 / 8589934592)"
  by (simp add: float_estimate_def float_eval)

theorem estimate_floor_witness:
  "flat_raster 100 (num 28.6) (num 77.2) = Some (Finite 100) \<and> (0::real) \<le> 100
   \<and> estimate_affected_people pow_rounded (flat_raster 100) (num 28.6) (num 77.2)
        (JFloat (Finite 5)) = Inr (Count 785398)
   \<and> estimate_affected_people pow_rounded (flat_raster 100) (num 28.6) (num 77.2) (JInt 5)
        = Inr (Count 785398)
   \<and> estimate_affected_people pow_rounded (flat_raster 100) (num 28.6) (num 77.2)
        (JFloat (Finite 0)) = Inr (Count 0)
   \<and> no_raster (num 28.6) (num 77.2) = None
   \<and> estimate_affected_people pow_rounded no_raster (num 28.6) (num 77.2) (JInt 5)
        = Inr Unknown"
proof -
  have g: "flat_raster 100 (num 28.6) (num 77.2) = Some (Finite 100)"
    by (simp add: flat_raster_def)
  have n: "no_raster (num 28.6) (num 77.2) = None"
    by (simp add: no_raster_def)
  have fl: "\<lfloor>6746518852261009 / 8589934592 :: real\<rfloor> = 785398" by simp
  from estimate_floor [where pw = pow_rounded and gpd = "flat_raster 100" and lat = "num 28.6"
      and lon = "num 77.2" and d = 100 and m = 5 and n = 5 and magnitude = "JInt 5"]
    g pow_rounded_nonneg float_estimate_100_5 float_estimate_100_int_5 fl
  have a: "estimate_affected_people pow_rounded (flat_raster 100) (num 28.6) (num 77.2)
        (JFloat (Finite 5)) = Inr (Count 785398)
     \<and> estimate_affected_people pow_rounded (flat_raster 100) (num 28.6) (num 77.2) (JInt 5)
        = Inr (Count 785398)
     \<and> estimate_affected_people pow_rounded (flat_raster 100) (num 28.6) (num 77.2)
        (JFloat (Finite 0)) = Inr (Count 0)"
    by simp
  from estimate_floor [where pw = pow_rounded and gpd = no_raster and lat = "num 28.6"
      and lon = "num 77.2" and magnitude = "JInt 5"] n
  have b: "estimate_affected_people pow_rounded no_raster (num 28.6) (num 77.2) (JInt 5)
        = Inr Unknown"
    by simp
  show ?thesis using g n a b by simp
qed

text \<open>C1 as stated fails: the magnitude \<open>10^200\<close>, as a float and as an int, raises
  OverflowError instead of giving a number; and at density 16530.9375 and magnitude 7.375
  the code returns 282469399, one more than the floor of the exact product with
  \<^verbatim>\<open>np.pi\<close>.\<close>

theorem estimate_floor_counterexample:
  "estimate_affected_people pow_rounded (flat_raster 1) (num 28.6) (num 77.2) (num (10 ^ 200))
     = Inl OverflowError
   \<and> estimate_affected_people pow_rounded (flat_raster 1) (num 28.6) (num 77.2)
       (JInt (10 ^ 200)) = Inl OverflowError
   \<and> estimate_affected_people pow_rounded (flat_raster 16530.9375) (num 28.6) (num 77.2)
       (num 7.375) = Inr (Count 282469399)
   \<and> \<lfloor>16530.9375 * np_pi * (10 * 7.375)\<^sup>2\<rfloor> = 282469398"
proof -
  have a: "estimate_affected_people pow_rounded (flat_raster 1) (num 28.6) (num 77.2)
      (JInt (10 ^ 200)) = Inl OverflowError"
    by (simp add: estimate_affected_people_def flat_raster_def int_to_float_def binary64_def)
  have b: "estimate_affected_people pow_rounded (flat_raster 16530.9375) (num 28.6) (num 77.2)
       (num 7.375) = Inr (Count 282469399)"
    by (simp add: estimate_affected_people_def flat_raster_def float_eval)
  have c: "\<lfloor>16530.9375 * np_pi * (10 * 7.375)\<^sup>2\<rfloor> = 282469398"
    by (simp add: np_pi_def power2_eq_square)
  show ?thesis using estimate_1e200 a b c by simp
qed

lemma impact_area_nonneg:
  assumes pw: "\<forall>x q. pw x = Finite q \<longrightarrow> 0 \<le> q"
    and a: "impact_area pw magnitude = Inr area"
  shows "\<exists>r2. area = fmul (Finite np_pi) r2 \<and> (\<forall>q. r2 = Finite q \<longrightarrow> 0 \<le> q)"
proof (cases magnitude)
  case (JFloat m)
  with a float_pow2_cases [of pw "fmul m (Finite 10)"]
  have "area = fmul (Finite np_pi) (fsquare pw (fmul m (Finite 10)))"
    by (auto split: sum.splits)
  then show ?thesis using fsquare_nonneg [OF pw] by blast
next
  case (JInt n)
  have sq: "(0::real) \<le> of_int ((n * 10)\<^sup>2)" by simp
  from JInt a int_to_float_cases [of "(n * 10)\<^sup>2"]
  have "area = fmul (Finite np_pi) (binary64 (of_int ((n * 10)\<^sup>2)))"
    by (auto split: sum.splits)
  then show ?thesis using binary64_nonneg(2) [OF sq] by blast
next
  case (JBool b)
  let ?k = "((if b then 1 else 0) * 10)\<^sup>2 :: int"
  have sq: "(0::real) \<le> of_int ?k" by simp
  from JBool a int_to_float_cases [of ?k]
  have "area = fmul (Finite np_pi) (binary64 (of_int ?k))"
    by (auto split: sum.splits)
  then show ?thesis using binary64_nonneg(2) [OF sq] by blast
qed (use a in auto)

lemma impact_area_not_number:
  "as_number magnitude = None \<Longrightarrow> impact_area pw magnitude = Inl TypeError"
  by (cases magnitude) auto

lemma impact_area_non_finite:
  "magnitude = JFloat PInf \<or> magnitude = JFloat NInf \<or> magnitude = JFloat NaN \<Longrightarrow>
   impact_area pw magnitude = Inr PInf \<or> impact_area pw magnitude = Inr NaN"
  using np_pi_pos by auto

lemma py_int_fmul_non_finite:
  "area = PInf \<or> area = NaN \<Longrightarrow>
   py_int (fmul density area) = Inl OverflowError \<or> py_int (fmul density area) = Inl ValueError"
  by (cases density) auto

text \<open>
  C2, as the code has it. With a known density the result is never \<^verbatim>\<open>"Unknown"\<close>, whatever
  the magnitude: the code returns an int or raises. A returned int comes from a finite
  density sample and is not negative when the sample is not negative, and not positive
  when the sample is not positive. An infinite or NaN magnitude raises OverflowError or
  ValueError, and a magnitude that is not a number raises TypeError.
\<close>

theorem estimate_sign:
  assumes g: "gpd lat lon = Some density"
    and pw: "\<forall>x q. pw x = Finite q \<longrightarrow> 0 \<le> q"
  shows "estimate_affected_people pw gpd lat lon magnitude \<noteq> Inr Unknown
    \<and> (\<forall>n. estimate_affected_people pw gpd lat lon magnitude = Inr (Count n) \<longrightarrow>
          (\<exists>d. density = Finite d \<and> (0 \<le> d \<longrightarrow> 0 \<le> n) \<and> (d \<le> 0 \<longrightarrow> n \<le> 0)))
    \<and> (magnitude = JFloat PInf \<or> magnitude = JFloat NInf \<or> magnitude = JFloat NaN \<longrightarrow>
          estimate_affected_people pw gpd lat lon magnitude = Inl OverflowError
          \<or> estimate_affected_people pw gpd lat lon magnitude = Inl ValueError)
    \<and> (as_number magnitude = None \<longrightarrow>
          estimate_affected_people pw gpd lat lon magnitude = Inl TypeError)"
proof -
  let ?est = "estimate_affected_people pw gpd lat lon magnitude"
  have a: "?est \<noteq> Inr Unknown"
    using g by (simp add: estimate_unknown_iff)
  have b: "\<exists>d. density = Finite d \<and> (0 \<le> d \<longrightarrow> 0 \<le> n) \<and> (d \<le> 0 \<longrightarrow> n \<le> 0)"
    if c: "?est = Inr (Count n)" for n
  proof -
    from c obtain area where ar: "impact_area pw magnitude = Inr area"
      and pi: "py_int (fmul density area) = Inr n"
      by (auto simp: estimate_known [where gpd = gpd and lat = lat and lon = lon, OF g] split: sum.splits)
    from impact_area_nonneg [OF pw ar] obtain r2
      where area: "area = fmul (Finite np_pi) r2" and r2: "\<forall>q. r2 = Finite q \<longrightarrow> 0 \<le> q"
      by blast
    from pi py_int_cases [of "fmul density area"] obtain v
      where v: "fmul density area = Finite v" and n: "n = (if 0 \<le> v then \<lfloor>v\<rfloor> else \<lceil>v\<rceil>)"
      by auto
    from v obtain d where d: "density = Finite d"
      by (auto dest!: fmul_Finite)
    have fe: "float_estimate (Finite d) r2 = Finite v"
      using v by (simp add: float_estimate_def area d)
    from float_estimate_sign [OF r2 fe]
    have s: "(0 \<le> d \<longrightarrow> 0 \<le> v) \<and> (d \<le> 0 \<longrightarrow> v \<le> 0)" .
    have "(0 \<le> d \<longrightarrow> 0 \<le> n) \<and> (d \<le> 0 \<longrightarrow> n \<le> 0)"
      using s by (auto simp: n)
    then show ?thesis using d by blast
  qed
  have c: "?est = Inl OverflowError \<or> ?est = Inl ValueError"
    if m: "magnitude = JFloat PInf \<or> magnitude = JFloat NInf \<or> magnitude = JFloat NaN"
  proof -
    from impact_area_non_finite [OF m, of pw] obtain area
      where ar: "impact_area pw magnitude = Inr area" and nf: "area = PInf \<or> area = NaN"
      by blast
    from py_int_fmul_non_finite [OF nf, of density] show ?thesis
      by (auto simp: estimate_known [where gpd = gpd and lat = lat and lon = lon, OF g] ar)
  qed
  have e: "?est = Inl TypeError" if "as_number magnitude = None"
    using impact_area_not_number [OF that, of pw] by (simp add: estimate_known [where gpd = gpd and lat = lat and lon = lon, OF g])
  show ?thesis using a b c e by blast
qed

lemma estimate_negative_magnitude:
  "estimate_affected_people pow_rounded (flat_raster 1) lat lon (num (- 1)) = Inr (Count 314)"
  by (simp add: estimate_affected_people_def flat_raster_def float_eval)

lemma estimate_negative_density:
  "estimate_affected_people pow_rounded (flat_raster (- 1)) lat lon (num 1) = Inr (Count (- 314))"
  by (simp add: estimate_affected_people_def flat_raster_def float_eval)

lemma estimate_infinite_magnitude:
  "estimate_affected_people pw (flat_raster 1) lat lon (JFloat PInf) = Inl OverflowError"
  by (simp add: estimate_affected_people_def flat_raster_def np_pi_def)

lemma estimate_nan_magnitude:
  "estimate_affected_people pw (flat_raster 1) lat lon (JFloat NaN) = Inl ValueError"
  by (simp add: estimate_affected_people_def flat_raster_def)

theorem estimate_sign_witness:
  "flat_raster 1 (num 28.6) (num 77.2) = Some (Finite 1)
   \<and> estimate_affected_people pow_rounded (flat_raster 1) (num 28.6) (num 77.2) (num (- 1))
       = Inr (Count 314)
   \<and> estimate_affected_people pow_rounded (flat_raster 1) (num 28.6) (num 77.2) (JFloat NaN)
       = Inl ValueError
   \<and> estimate_affected_people pow_rounded (flat_raster 1) (num 28.6) (num 77.2) JNull
       = Inl TypeError"
proof -
  have g: "flat_raster 1 (num 28.6) (num 77.2) = Some (Finite 1)"
    by (simp add: flat_raster_def)
  from estimate_sign [where gpd = "flat_raster 1" and lat = "num 28.6" and lon = "num 77.2",
      OF g pow_rounded_nonneg, of JNull]
  have t: "estimate_affected_people pow_rounded (flat_raster 1) (num 28.6) (num 77.2) JNull
       = Inl TypeError"
    by simp
  from estimate_sign [where gpd = "flat_raster 1" and lat = "num 28.6" and lon = "num 77.2",
      OF g pow_rounded_nonneg, of "JFloat NaN"] estimate_nan_magnitude [of pow_rounded]
  have v: "estimate_affected_people pow_rounded (flat_raster 1) (num 28.6) (num 77.2)
      (JFloat NaN) = Inl ValueError"
    by simp
  show ?thesis using g t v estimate_negative_magnitude by simp
qed

text \<open>C2 as stated fails: a negative magnitude gives a number, not \<^verbatim>\<open>"Unknown"\<close>; a
  negative density sample (the raster's no-data value) gives a negative number; an
  infinite or NaN magnitude raises.\<close>

theorem estimate_sign_counterexample:
  "estimate_affected_people pow_rounded (flat_raster 1) (num 28.6) (num 77.2) (num (- 1))
     = Inr (Count 314)
   \<and> estimate_affected_people pow_rounded (flat_raster (- 1)) (num 28.6) (num 77.2) (num 1)
     = Inr (Count (- 314))
   \<and> estimate_affected_people pow_rounded (flat_raster 1) (num 28.6) (num 77.2) (JFloat PInf)
     = Inl OverflowError
   \<and> estimate_affected_people pow_rounded (flat_raster 1) (num 28.6) (num 77.2) (JFloat NaN)
     = Inl ValueError"
  using estimate_negative_magnitude estimate_negative_density
    estimate_infinite_magnitude [of pow_rounded] estimate_nan_magnitude [of pow_rounded]
  by simp

section \<open>Properties of the dict and of the loop\<close>

lemma py_eq_canonical:
  "hashable a \<Longrightarrow> hashable b \<Longrightarrow> py_eq a b \<longleftrightarrow> canonical a = canonical b"
  by (cases a; cases b) auto

lemma key_eq_canonical:
  "hashable_key k \<Longrightarrow> hashable_key k' \<Longrightarrow> key_eq k k' \<longleftrightarrow> canonical_key k = canonical_key k'"
  by (simp add: key_eq_def hashable_key_def canonical_key_def py_eq_canonical)


lemma dict_keys_Nil: "dict_keys [] = []"
  by (simp add: dict_keys_def)

lemma length_dict_keys: "length (dict_keys d) = length d"
  by (simp add: dict_keys_def)

lemma setitem_ok:
  "dict_setitem d k v = Inr d' \<longleftrightarrow> hashable_key k \<and> d' = dict_store d k v"
  by (auto simp: dict_setitem_def hashable_key_def)

lemma canonical_keys_dict_store:
  assumes "\<forall>k' \<in> set (dict_keys d). hashable_key k'" and "hashable_key k"
  shows "map canonical_key (dict_keys (dict_store d k v)) =
     (if canonical_key k \<in> set (map canonical_key (dict_keys d))
      then map canonical_key (dict_keys d)
      else map canonical_key (dict_keys d) @ [canonical_key k])"
  using assms
proof (induction d)
  case Nil
  then show ?case by (simp add: dict_keys_def)
next
  case (Cons p d)
  obtain k' v' where p: "p = (k', v')" by (cases p)
  from Cons.prems p have hk': "hashable_key k'" by (simp add: dict_keys_def)
  from Cons.prems have sub: "\<forall>k' \<in> set (dict_keys d). hashable_key k'"
    by (simp add: dict_keys_def)
  have eq: "key_eq k' k \<longleftrightarrow> canonical_key k' = canonical_key k"
    using hk' Cons.prems(2) by (rule key_eq_canonical)
  show ?case using Cons.IH [OF sub Cons.prems(2)]
    by (auto simp: p eq dict_keys_def)
qed

lemma keys_dict_store_cases:
  "dict_keys (dict_store d k v) = dict_keys d \<or> dict_keys (dict_store d k v) = dict_keys d @ [k]"
proof (induction d)
  case Nil
  then show ?case by (simp add: dict_keys_def)
next
  case (Cons p d)
  obtain k' v' where p: "p = (k', v')" by (cases p)
  show ?case using Cons.IH by (cases "key_eq k' k") (auto simp: p dict_keys_def)
qed

lemma keys_dict_store_subset:
  "set (dict_keys (dict_store d k v)) \<subseteq> insert k (set (dict_keys d))"
  using keys_dict_store_cases [of d k v] by auto

lemma hashable_keys_dict_store:
  assumes "\<forall>k' \<in> set (dict_keys d). hashable_key k'" and "hashable_key k"
  shows "\<forall>k' \<in> set (dict_keys (dict_store d k v)). hashable_key k'"
  using assms keys_dict_store_subset [of d k v] by blast




text \<open>One step of the loop, when it raises nothing.\<close>

lemma process_events_Cons_ok:
  assumes "process_events pw gpd ((lat, lon, m) # rest) st = (st', None)"
  shows "\<exists>a. estimate_affected_people pw gpd lat lon m = Inr a \<and> hashable_key (lat, lon)
     \<and> process_events pw gpd rest
          (st\<lparr>heatmap_data := heatmap_data st @ [(lat, lon, m)],
             population_data := dict_store (population_data st) (lat, lon) a\<rparr>) = (st', None)"
  using assms
  by (auto simp: Let_def dict_setitem_def hashable_key_def split: sum.splits if_splits)

lemma process_events_heatmap:
  "process_events pw gpd evs st = (st', None) \<Longrightarrow> heatmap_data st' = heatmap_data st @ evs"
proof (induction evs arbitrary: st)
  case Nil
  then show ?case by simp
next
  case (Cons e evs)
  obtain lat lon m where e: "e = (lat, lon, m)" by (cases e)
  from process_events_Cons_ok [OF Cons.prems [unfolded e]] obtain a where
    "process_events pw gpd evs
       (st\<lparr>heatmap_data := heatmap_data st @ [(lat, lon, m)],
        population_data := dict_store (population_data st) (lat, lon) a\<rparr>) = (st', None)"
    by blast
  from Cons.IH [OF this] show ?case by (simp add: e)
qed

lemma process_events_keys:
  assumes "process_events pw gpd evs st = (st', None)"
    and "\<forall>k \<in> set (dict_keys (population_data st)). hashable_key k"
    and "distinct (map canonical_key (dict_keys (population_data st)))"
  shows "(\<forall>k \<in> set (dict_keys (population_data st')). hashable_key k)
     \<and> distinct (map canonical_key (dict_keys (population_data st')))
     \<and> set (map canonical_key (dict_keys (population_data st'))) =
         set (map canonical_key (dict_keys (population_data st)))
           \<union> canonical_key ` coords_of ` set evs"
  using assms
proof (induction evs arbitrary: st)
  case Nil
  then show ?case by simp
next
  case (Cons e evs)
  obtain lat lon m where e: "e = (lat, lon, m)" by (cases e)
  let ?d = "population_data st"
  from process_events_Cons_ok [OF Cons.prems(1) [unfolded e]] obtain a where
    hk: "hashable_key (lat, lon)" and
    r: "process_events pw gpd evs
       (st\<lparr>heatmap_data := heatmap_data st @ [(lat, lon, m)],
        population_data := dict_store ?d (lat, lon) a\<rparr>) = (st', None)"
    by blast
  let ?d2 = "dict_store ?d (lat, lon) a"
  note ck = canonical_keys_dict_store [OF Cons.prems(2) hk, of a]
  have h2: "\<forall>k \<in> set (dict_keys ?d2). hashable_key k"
    by (rule hashable_keys_dict_store [OF Cons.prems(2) hk])
  have d2: "distinct (map canonical_key (dict_keys ?d2))"
    using Cons.prems(3) by (simp add: ck)
  have s2: "set (map canonical_key (dict_keys ?d2)) =
      insert (canonical_key (lat, lon)) (set (map canonical_key (dict_keys ?d)))"
    by (simp add: ck insert_absorb)
  have c: "coords_of e = (lat, lon)" by (simp add: e coords_of_def)
  from Cons.IH [OF r] h2 d2 s2 show ?case
    by (simp add: c)
qed



section \<open>Properties of a refresh cycle\<close>

lemma not_truthy_cycle:
  "\<not> truthy (fetch_usgs_earthquake_data outcome) \<Longrightarrow>
   update_heatmap_cycle pw gpd outcome st = (st, None)"
  by (simp add: update_heatmap_cycle_def)

lemma fetch_empty_feed: "fetch_usgs_earthquake_data empty_feed = Some []"
  by (simp add: empty_feed_def)

lemma cleared: "(st::dataset)\<lparr>heatmap_data := [], population_data := []\<rparr> = initial"
  by (simp add: initial_def)

text \<open>
  C4. When the request raises or the response has a status other than 200, the fetch
  returns \<^verbatim>\<open>None\<close>; and whenever the fetch returns \<^verbatim>\<open>None\<close>, the cycle leaves both globals
  exactly as they were and raises nothing.
\<close>

theorem fetch_failure_keeps_dataset:
  "(outcome = RequestFailed
      \<or> (\<exists>status_code body. outcome = Response status_code body \<and> status_code \<noteq> 200)
      \<longrightarrow> fetch_usgs_earthquake_data outcome = None)
   \<and> (fetch_usgs_earthquake_data outcome = None
      \<longrightarrow> update_heatmap_cycle pw gpd outcome st = (st, None))"
proof -
  have a: "outcome = RequestFailed
      \<or> (\<exists>status_code body. outcome = Response status_code body \<and> status_code \<noteq> 200)
      \<Longrightarrow> fetch_usgs_earthquake_data outcome = None"
    by auto
  have b: "fetch_usgs_earthquake_data outcome = None \<Longrightarrow>
      update_heatmap_cycle pw gpd outcome st = (st, None)"
    using not_truthy_cycle [of outcome pw gpd st] by simp
  show ?thesis using a b by blast
qed

theorem fetch_failure_keeps_dataset_witness:
  "fetch_usgs_earthquake_data (Response 503 None) = None
   \<and> update_heatmap_cycle pow_rounded no_raster (Response 503 None) sample_dataset
       = (sample_dataset, None)
   \<and> fetch_usgs_earthquake_data RequestFailed = None
   \<and> update_heatmap_cycle pow_rounded no_raster RequestFailed sample_dataset
       = (sample_dataset, None)"
  using fetch_failure_keeps_dataset [of "Response 503 None" pow_rounded no_raster sample_dataset]
    fetch_failure_keeps_dataset [of RequestFailed pow_rounded no_raster sample_dataset]
  by simp

text \<open>
  C3, as the code has it. When the fetch succeeds and returns the empty list, the cycle
  leaves both globals exactly as they were: the data of the previous cycle is retained, and
  the dataset is empty after the cycle only if it was empty before.
\<close>

theorem empty_fetch_keeps_dataset:
  assumes "fetch_usgs_earthquake_data outcome = Some []"
  shows "update_heatmap_cycle pw gpd outcome st = (st, None)"
  using not_truthy_cycle [of outcome pw gpd st] assms by simp

theorem empty_fetch_keeps_dataset_witness:
  "fetch_usgs_earthquake_data empty_feed = Some []
   \<and> update_heatmap_cycle pow_rounded no_raster empty_feed sample_dataset = (sample_dataset, None)"
  using empty_fetch_keeps_dataset [of empty_feed pow_rounded no_raster sample_dataset]
    fetch_empty_feed
  by simp

text \<open>C3 as stated fails: after an empty feed the estimate of the previous cycle is still
  stored and its event is still the one of the alert.\<close>

theorem empty_fetch_counterexample:
  "fetch_usgs_earthquake_data empty_feed = Some []
   \<and> population_data (fst (update_heatmap_cycle pow_rounded no_raster empty_feed sample_dataset))
       = [(nkey (28.6, 77.2), Count 785398)]
   \<and> most_extreme (heatmap_data
         (fst (update_heatmap_cycle pow_rounded no_raster empty_feed sample_dataset)))
       = Inr (Some (ev (28.6, 77.2, 5)))"
  by (simp add: update_heatmap_cycle_def empty_feed_def sample_dataset_def)

text \<open>
  C7. Processing the same events a second time, with the same density lookup, gives the
  same two globals and the same outcome as the first time, whatever the dataset was before:
  for \<^verbatim>\<open>process_usgs_data\<close> and for a whole cycle.
\<close>

theorem process_twice_same:
  "process_usgs_data pw gpd usgs_data (fst (process_usgs_data pw gpd usgs_data st))
     = process_usgs_data pw gpd usgs_data st
   \<and> update_heatmap_cycle pw gpd outcome (fst (update_heatmap_cycle pw gpd outcome st))
     = update_heatmap_cycle pw gpd outcome st"
proof -
  have p: "process_usgs_data pw gpd u (fst (process_usgs_data pw gpd u s))
      = process_usgs_data pw gpd u s" for u s
  proof (cases "truthy u")
    case True
    then obtain e es where "u = Some (e # es)"
      by (cases u rule: truthy.cases) auto
    then show ?thesis by (simp add: cleared)
  next
    case False
    then have "process_usgs_data pw gpd u s' = (s', None)" for s'
      by (cases u rule: truthy.cases) auto
    then show ?thesis by simp
  qed
  show ?thesis using p by (simp add: update_heatmap_cycle_def Let_def)
qed

text \<open>
  C8, as the code has it. For the two events of the example with densities 100 and 200 the
  stored estimates are 785398 and 2261946, and the event of the alert is the one of
  magnitude 6.
\<close>

theorem spec_example:
  "process_usgs_data pow_rounded spec_raster (Some spec_events) initial
     = (\<lparr>heatmap_data = spec_events,
         population_data =
           [(nkey (28.6, 77.2), Count 785398), (nkey (19, 72.8), Count 2261946)]\<rparr>, None)
   \<and> most_extreme spec_events = Inr (Some (ev (19, 72.8, 6)))"
  using estimate_spec_first estimate_spec_second sample_values
  by (simp add: spec_events_def ev_def nkey_def initial_def dict_setitem_def key_eq_def
      hashable_num py_eq_num py_gt_num)

text \<open>C8 as stated fails: the estimate of the second event is 2261946, not 2262743.\<close>

theorem spec_example_counterexample:
  "estimate_affected_people pow_rounded spec_raster (num 19) (num 72.8) (num 6)
     = Inr (Count 2261946)
   \<and> estimate_affected_people pow_rounded spec_raster (num 19) (num 72.8) (num 6)
     \<noteq> Inr (Count 2262743)"
  using estimate_spec_second by simp

section \<open>Properties of the fetch\<close>










section \<open>What a completed pass over the events leaves\<close>


lemma process_usgs_data_events:
  "evs \<noteq> [] \<Longrightarrow> process_usgs_data pw gpd (Some evs) st = process_events pw gpd evs initial"
  by (cases evs) (simp_all add: cleared)

lemma initial_fields: "heatmap_data initial = []" "population_data initial = []"
  by (simp_all add: initial_def)

text \<open>
  C6, as the code has it. When processing a non-empty list of events returns without an
  exception, \<^verbatim>\<open>heatmap_data\<close> holds the events, one entry each, and \<^verbatim>\<open>population_data\<close> holds
  one estimate per distinct coordinate pair (distinct as dict keys): as many as there are
  events when the coordinates are pairwise distinct, fewer when two events share them.
\<close>

theorem estimates_per_coordinate:
  assumes "process_usgs_data pw gpd (Some evs) st = (st', None)" and "evs \<noteq> []"
  shows "heatmap_data st' = evs
     \<and> length (population_data st') = card (canonical_key ` coords_of ` set evs)
     \<and> (distinct (map (\<lambda>e. canonical_key (coords_of e)) evs) \<longrightarrow>
          length (population_data st') = length evs)
     \<and> (\<not> distinct (map (\<lambda>e. canonical_key (coords_of e)) evs) \<longrightarrow>
          length (population_data st') < length evs)"
proof -
  let ?ks = "map (\<lambda>e. canonical_key (coords_of e)) evs"
  let ?d = "population_data st'"
  from assms have r: "process_events pw gpd evs initial = (st', None)"
    by (simp add: process_usgs_data_events)
  have h: "heatmap_data st' = evs"
    using process_events_heatmap [OF r] by (simp add: initial_fields)
  from process_events_keys [OF r]
  have k: "distinct (map canonical_key (dict_keys ?d))"
    and s: "set (map canonical_key (dict_keys ?d)) = canonical_key ` coords_of ` set evs"
    by (simp_all add: initial_fields dict_keys_Nil)
  have "length ?d = length (map canonical_key (dict_keys ?d))"
    by (simp add: length_dict_keys)
  also have "\<dots> = card (set (map canonical_key (dict_keys ?d)))"
    using distinct_card [OF k] by simp
  finally have len: "length ?d = card (canonical_key ` coords_of ` set evs)"
    by (simp only: s)
  have im: "canonical_key ` coords_of ` set evs = set ?ks" by auto
  have d1: "length ?d = length evs" if "distinct ?ks"
    using distinct_card [OF that] by (simp add: len im)
  have d2: "length ?d < length evs" if nd: "\<not> distinct ?ks"
  proof -
    have "card (set ?ks) \<noteq> length ?ks" using nd card_distinct by blast
    moreover have "card (set ?ks) \<le> length ?ks" by (rule card_length)
    ultimately have "card (set ?ks) < length ?ks" by linarith
    then show ?thesis by (simp add: len im)
  qed
  show ?thesis using h len d1 d2 by blast
qed



section \<open>The samples processed\<close>

lemma coords_ev: "coords_of (ev (lat, lon, m)) = nkey (lat, lon)"
  by (simp add: coords_of_def ev_def nkey_def)

lemma process_twin:
  "process_usgs_data pow_rounded (flat_raster 100) (Some twin_events) st
     = (\<lparr>heatmap_data = twin_events,
         population_data = [(nkey (28.6, 77.2), Count 1130973)]\<rparr>, None)"
  by (simp add: twin_events_def ev_def nkey_def dict_setitem_def key_eq_def
      estimate_flat_5 estimate_flat_6 hashable_num py_eq_num)






theorem estimates_per_coordinate_witness:
  "process_usgs_data pow_rounded (flat_raster 100) (Some twin_events) sample_dataset
       = (\<lparr>heatmap_data = twin_events,
           population_data = [(nkey (28.6, 77.2), Count 1130973)]\<rparr>, None)
   \<and> twin_events \<noteq> []
   \<and> \<not> distinct (map (\<lambda>e. canonical_key (coords_of e)) twin_events)
   \<and> card (canonical_key ` coords_of ` set twin_events) = 1
   \<and> process_usgs_data pow_rounded spec_raster (Some spec_events) sample_dataset
       = (\<lparr>heatmap_data = spec_events,
           population_data =
             [(nkey (28.6, 77.2), Count 785398), (nkey (19, 72.8), Count 2261946)]\<rparr>, None)
   \<and> distinct (map (\<lambda>e. canonical_key (coords_of e)) spec_events)"
proof -
  have ne: "twin_events \<noteq> []" by (simp add: twin_events_def)
  have nd: "\<not> distinct (map (\<lambda>e. canonical_key (coords_of e)) twin_events)"
    by (simp add: twin_events_def coords_ev)
  have ne2: "spec_events \<noteq> []" by (simp add: spec_events_def)
  have sp: "process_usgs_data pow_rounded spec_raster (Some spec_events) sample_dataset
       = (\<lparr>heatmap_data = spec_events,
           population_data =
             [(nkey (28.6, 77.2), Count 785398), (nkey (19, 72.8), Count 2261946)]\<rparr>, None)"
    using estimate_spec_first estimate_spec_second sample_values
    by (simp add: spec_events_def ev_def nkey_def dict_setitem_def key_eq_def
        hashable_num py_eq_num)
  from estimates_per_coordinate [OF process_twin [of sample_dataset] ne]
  have c: "card (canonical_key ` coords_of ` set twin_events) = 1" by simp
  from estimates_per_coordinate [OF sp ne2]
  have d: "distinct (map (\<lambda>e. canonical_key (coords_of e)) spec_events)"
    by (auto simp: spec_events_def)
  show ?thesis using process_twin ne nd c sp d by simp
qed

text \<open>C6 as stated fails: two events at the same coordinates leave one stored estimate.\<close>

theorem estimates_per_coordinate_counterexample:
  "length twin_events = 2
   \<and> process_usgs_data pow_rounded (flat_raster 100) (Some twin_events) initial
       = (\<lparr>heatmap_data = twin_events,
           population_data = [(nkey (28.6, 77.2), Count 1130973)]\<rparr>, None)
   \<and> length (population_data
        (fst (process_usgs_data pow_rounded (flat_raster 100) (Some twin_events) initial))) = 1"
  by (simp add: process_twin) (simp add: twin_events_def)





end
